theory Spec2Isabelle
  imports Main "HOL-Library.Word"
begin

unbundle bit_operations_syntax

section \<open>The Go library functions cmdparser calls\<close>

text \<open>
  cmdparser.go leans on strconv, fmt, encoding/base64 and encoding/json. Go strings are
  byte sequences, here \<^typ>\<open>string\<close>. A library function that returns \<open>(v, err)\<close> is a
  function into a pair whose second component is \<open>None\<close> for a nil error: Go returns
  a value also when it returns an error, and cmdparser stores that value.
\<close>

datatype liberr =
    ErrSyntax             \<comment> \<open>strconv.ErrSyntax\<close>
  | ErrRange              \<comment> \<open>strconv.ErrRange\<close>
  | CorruptInputError     \<comment> \<open>base64.CorruptInputError (the offset is left out)\<close>
  | UnexpectedEndOfJSON   \<comment> \<open>json.SyntaxError: unexpected end of JSON input\<close>
  | OtherError string     \<comment> \<open>any other error a library parameter reports\<close>

subsection \<open>strconv.ParseBool and the \<open>%v\<close> verb on a bool\<close>

definition ParseBool :: "string \<Rightarrow> bool \<times> liberr option" where
  "ParseBool s =
     (if s = ''1'' \<or> s = ''t'' \<or> s = ''T'' \<or> s = ''TRUE'' \<or> s = ''true'' \<or> s = ''True''
      then (True, None)
      else if s = ''0'' \<or> s = ''f'' \<or> s = ''F'' \<or> s = ''FALSE'' \<or> s = ''false'' \<or> s = ''False''
      then (False, None)
      else (False, Some ErrSyntax))"

definition fmtBool :: "bool \<Rightarrow> string" where
  "fmtBool b = (if b then ''true'' else ''false'')"

subsection \<open>strconv.ParseInt(s, 0, 64) and the \<open>%v\<close> verb on an int64\<close>

text \<open>
  An int64 is a \<^typ>\<open>64 word\<close> read with \<^const>\<open>sint\<close>. \<open>ParseUint\<close> follows the
  loop of strconv as the comment on \<open>IntOption\<close> describes it: base 16 after \<open>0x\<close>,
  base 8 after a leading \<open>0\<close>, base 10 otherwise. A digit outside the base or any other
  byte is a syntax error with value 0; a value past the unsigned range is a range error
  with the largest value. \<open>ParseInt\<close> takes the sign off, and clamps a magnitude that
  does not fit to the largest value of that sign.
\<close>

definition maxUint64 :: nat where
  "maxUint64 = 2 ^ 64 - 1"

definition digitVal :: "char \<Rightarrow> nat option" where
  "digitVal d =
     (let c = of_char d :: nat in
      if 48 \<le> c \<and> c \<le> 57 then Some (c - 48)
      else if 97 \<le> c \<and> c \<le> 122 then Some (c - 97 + 10)
      else if 65 \<le> c \<and> c \<le> 90 then Some (c - 65 + 10)
      else None)"

fun uintLoop :: "nat \<Rightarrow> nat \<Rightarrow> string \<Rightarrow> nat \<times> liberr option" where
  "uintLoop base n [] = (n, None)"
| "uintLoop base n (d # ds) =
     (case digitVal d of
        None \<Rightarrow> (0, Some ErrSyntax)
      | Some v \<Rightarrow>
          if v \<ge> base then (0, Some ErrSyntax)
          else if n \<ge> maxUint64 div base + 1 then (maxUint64, Some ErrRange)
          else if n * base + v > maxUint64 then (maxUint64, Some ErrRange)
          else uintLoop base (n * base + v) ds)"

definition ParseUint :: "string \<Rightarrow> nat \<times> liberr option" where
  "ParseUint s =
     (case s of
        [] \<Rightarrow> (0, Some ErrSyntax)
      | c # cs \<Rightarrow>
          if c = CHR ''0'' \<and> cs \<noteq> [] \<and> (hd cs = CHR ''x'' \<or> hd cs = CHR ''X'')
          then (if length s < 3 then (0, Some ErrSyntax) else uintLoop 16 0 (tl cs))
          else if c = CHR ''0'' then uintLoop 8 0 cs
          else uintLoop 10 0 s)"

definition ParseInt :: "string \<Rightarrow> 64 word \<times> liberr option" where
  "ParseInt s =
     (if s = [] then (0, Some ErrSyntax)
      else
        let neg = (hd s = CHR ''-'');
            s' = (if hd s = CHR ''+'' \<or> hd s = CHR ''-'' then tl s else s);
            (un, err) = ParseUint s'
        in if err \<noteq> None \<and> err \<noteq> Some ErrRange then (0, err)
           else if \<not> neg \<and> un \<ge> 2 ^ 63 then (word_of_int (2 ^ 63 - 1), Some ErrRange)
           else if neg \<and> un > 2 ^ 63 then (word_of_int (- (2 ^ 63)), Some ErrRange)
           else (if neg then word_of_int (- int un) else word_of_int (int un), None))"

definition digits :: string where
  "digits = ''0123456789''"

fun decimal :: "nat \<Rightarrow> string" where
  "decimal n =
     (if n < 10 then [digits ! n]
      else decimal (n div 10) @ [digits ! (n mod 10)])"

declare decimal.simps [simp del]

definition fmtInt :: "64 word \<Rightarrow> string" where
  "fmtInt i = (if sint i < 0 then CHR ''-'' # decimal (nat (- sint i)) else decimal (nat (sint i)))"

subsection \<open>encoding/base64: StdEncoding\<close>

text \<open>
  \<open>EncodeToString\<close> writes each group of three bytes as four characters of the
  alphabet and pads the last group with \<open>=\<close>. \<open>DecodeString\<close> drops carriage returns
  and line feeds, then reads groups of four characters; at a corrupt group it stops and
  returns the bytes of the groups before it together with the error, and after a padded
  group anything left is an error as well, with the padded group's bytes kept.
\<close>

definition encodeStd :: string where
  "encodeStd = ''ABCDEFGHIJKLMNOPQRSTUVWXYZabcdefghijklmnopqrstuvwxyz0123456789+/''"

definition enc64 :: "nat \<Rightarrow> char" where
  "enc64 i = encodeStd ! i"

fun indexOf :: "char \<Rightarrow> string \<Rightarrow> nat \<Rightarrow> nat option" where
  "indexOf c [] i = None"
| "indexOf c (x # xs) i = (if x = c then Some i else indexOf c xs (Suc i))"

definition decodeMap :: "char \<Rightarrow> nat option" where
  "decodeMap c = indexOf c encodeStd 0"

text \<open>
  The four 6-bit values of a group of three bytes (a missing byte counts as 0), and the
  three bytes of a group of four 6-bit values, cut to 8 bits as Go's byte arithmetic does.
\<close>

definition sextet0 :: "8 word \<Rightarrow> nat" where "sextet0 a = unat a div 4"
definition sextet1 :: "8 word \<Rightarrow> 8 word \<Rightarrow> nat" where "sextet1 a b = unat a mod 4 * 16 + unat b div 16"
definition sextet2 :: "8 word \<Rightarrow> 8 word \<Rightarrow> nat" where "sextet2 b c = unat b mod 16 * 4 + unat c div 64"
definition sextet3 :: "8 word \<Rightarrow> nat" where "sextet3 c = unat c mod 64"

definition octet0 :: "nat \<Rightarrow> nat \<Rightarrow> 8 word" where "octet0 d0 d1 = of_nat (d0 * 4 + d1 div 16)"
definition octet1 :: "nat \<Rightarrow> nat \<Rightarrow> 8 word" where "octet1 d1 d2 = of_nat (d1 * 16 + d2 div 4)"
definition octet2 :: "nat \<Rightarrow> nat \<Rightarrow> 8 word" where "octet2 d2 d3 = of_nat (d2 * 64 + d3)"

fun EncodeToString :: "8 word list \<Rightarrow> string" where
  "EncodeToString [] = []"
| "EncodeToString [a] =
     [enc64 (sextet0 a), enc64 (sextet1 a 0), CHR ''='', CHR ''='']"
| "EncodeToString [a, b] =
     [enc64 (sextet0 a), enc64 (sextet1 a b), enc64 (sextet2 b 0), CHR ''='']"
| "EncodeToString (a # b # c # rest) =
     enc64 (sextet0 a) # enc64 (sextet1 a b) # enc64 (sextet2 b c) # enc64 (sextet3 c) #
     EncodeToString rest"

definition removeNewlines :: "string \<Rightarrow> string" where
  "removeNewlines s = filter (\<lambda>c. c \<noteq> CHR 0x0A \<and> c \<noteq> CHR 0x0D) s"

fun decode :: "string \<Rightarrow> 8 word list \<times> liberr option" where
  "decode [] = ([], None)"
| "decode (c0 # c1 # c2 # c3 # rest) =
     (case (decodeMap c0, decodeMap c1) of
        (Some d0, Some d1) \<Rightarrow>
          if c2 = CHR ''='' then
            (if c3 = CHR ''=''
             then ([octet0 d0 d1], if rest = [] then None else Some CorruptInputError)
             else ([], Some CorruptInputError))
          else
            (case decodeMap c2 of
               None \<Rightarrow> ([], Some CorruptInputError)
             | Some d2 \<Rightarrow>
                 if c3 = CHR ''=''
                 then ([octet0 d0 d1, octet1 d1 d2],
                       if rest = [] then None else Some CorruptInputError)
                 else
                   (case decodeMap c3 of
                      None \<Rightarrow> ([], Some CorruptInputError)
                    | Some d3 \<Rightarrow>
                        (case decode rest of
                           (bs, e) \<Rightarrow> (octet0 d0 d1 # octet1 d1 d2 # octet2 d2 d3 # bs, e))))
      | _ \<Rightarrow> ([], Some CorruptInputError))"
| "decode _ = ([], Some CorruptInputError)"

definition DecodeString :: "string \<Rightarrow> 8 word list \<times> liberr option" where
  "DecodeString s = decode (removeNewlines s)"

subsection \<open>What is left to the library\<close>

text \<open>
  float64 values, their text and the JSON encoder are parameters: \<open>'f\<close> stands for
  float64, with \<open>0\<close> its zero. \<open>native\<close> is what \<open>Get()\<close> hands to the JSON encoder,
  \<open>json\<close> what the JSON decoder hands back in a \<open>map[string]interface{}\<close>.
\<close>

datatype 'f native =
    NBool bool | NInt "64 word" | NFloat 'f | NString string
  | NStrings "string list option" | NBytes "8 word list"

datatype 'f json =
    JNull | JBool bool | JNumber 'f | JString string
  | JArray "'f json list" | JObject "(string \<times> 'f json) list"

record 'f golib =
  fmtFloat :: "'f \<Rightarrow> string"
  ParseFloat :: "string \<Rightarrow> 'f \<times> liberr option"
  jsonMarshalStrings :: "string list \<Rightarrow> string"
  jsonUnmarshalStrings :: "string \<Rightarrow> string list option \<Rightarrow> string list option \<times> liberr option"
  jsonMarshalIndent :: "(string \<Rightarrow> 'f native option) \<Rightarrow> liberr + string"

text \<open>
  \<open>json.Unmarshal\<close> checks the whole input before it touches the target: on the empty
  input it returns "unexpected end of JSON input" and leaves the slice as it was. Every
  other input is the library parameter's.
\<close>

definition json_Unmarshal ::
  "'f golib \<Rightarrow> string \<Rightarrow> string list option \<Rightarrow> string list option \<times> liberr option" where
  "json_Unmarshal lib v s =
     (if v = [] then (s, Some UnexpectedEndOfJSON) else jsonUnmarshalStrings lib v s)"

section \<open>Option values (lines 355-479)\<close>

text \<open>
  The six implementations of \<open>optionValue\<close>. A string list keeps Go's difference
  between the nil slice (\<open>None\<close>) and an empty one, which \<open>String()\<close> tests; a byte
  slice is its bytes, nil and empty being the same to every operation here.
\<close>

datatype 'f optionValue =
    BoolV bool | IntV "64 word" | FloatV 'f | StringV string
  | StringListV "string list option" | ByteV "8 word list"

fun String_of :: "'f golib \<Rightarrow> 'f optionValue \<Rightarrow> string" where
  "String_of lib (BoolV b) = fmtBool b"
| "String_of lib (IntV i) = fmtInt i"
| "String_of lib (FloatV x) = fmtFloat lib x"
| "String_of lib (StringV s) = s"
| "String_of lib (StringListV None) = []"
| "String_of lib (StringListV (Some xs)) = jsonMarshalStrings lib xs"
| "String_of lib (ByteV bs) = EncodeToString bs"

fun Reset :: "'f::zero optionValue \<Rightarrow> 'f optionValue" where
  "Reset (BoolV b) = BoolV False"
| "Reset (IntV i) = IntV 0"
| "Reset (FloatV x) = FloatV 0"
| "Reset (StringV s) = StringV []"
| "Reset (StringListV l) = StringListV None"
| "Reset (ByteV bs) = ByteV []"

fun Get :: "'f optionValue \<Rightarrow> 'f native" where
  "Get (BoolV b) = NBool b"
| "Get (IntV i) = NInt i"
| "Get (FloatV x) = NFloat x"
| "Get (StringV s) = NString s"
| "Get (StringListV l) = NStrings l"
| "Get (ByteV bs) = NBytes bs"

fun Set :: "'f golib \<Rightarrow> string \<Rightarrow> 'f optionValue \<Rightarrow> 'f optionValue \<times> liberr option" where
  "Set lib s (BoolV b) = (case ParseBool s of (v, err) \<Rightarrow> (BoolV v, err))"
| "Set lib s (IntV i) = (case ParseInt s of (v, err) \<Rightarrow> (IntV v, err))"
| "Set lib s (FloatV x) = (case ParseFloat lib s of (v, err) \<Rightarrow> (FloatV v, err))"
| "Set lib s (StringV t) = (StringV s, None)"
| "Set lib s (StringListV l) =
     (StringListV (Some ((case l of None \<Rightarrow> [] | Some xs \<Rightarrow> xs) @ [s])), None)"
| "Set lib s (ByteV bs) = (case DecodeString s of (v, err) \<Rightarrow> (ByteV v, err))"

text \<open>\<open>FromString\<close> exists on the string list only; any other value is left alone.\<close>

fun FromString :: "'f golib \<Rightarrow> string \<Rightarrow> 'f optionValue \<Rightarrow> 'f optionValue \<times> liberr option" where
  "FromString lib v (StringListV l) = (case json_Unmarshal lib v l of (l', err) \<Rightarrow> (StringListV l', err))"
| "FromString lib v x = (x, None)"

section \<open>Commands, options and the package state (lines 19-38, 324-405, 481-485)\<close>

text \<open>
  A callback is a closure of the caller's. The parser only calls it, so the embedding
  names each closure by a number and logs the call; a nil callback is \<open>None\<close>. What
  the closure does to the caller's variables is the caller's and not modelled. Everything
  Parse prints or writes goes to the same log.
\<close>

type_synonym hook = nat

datatype event =
    Called hook                 \<comment> \<open>a callback or a command function ran\<close>
  | UsageShown                  \<comment> \<open>Usage() printed the help text\<close>
  | Println string              \<comment> \<open>fmt.Println of a text\<close>
  | FileWritten string string   \<comment> \<open>saveOptions wrote the file (name, data)\<close>

record CmdCommand =
  Command :: string
  CHelp :: string
  Function :: "hook option"

record 'f CmdOption =
  Name :: string
  Group :: string
  Format :: string
  Help :: string
  Value :: "'f optionValue"
  Default :: string
  Flags :: int
  onChange :: "hook option"
  onSave :: "hook option"

definition Standard :: int where "Standard = 1"
definition Preference :: int where "Preference = 2"
definition Required :: int where "Required = 4"
definition Hidden :: int where "Hidden = 8"

text \<open>
  The package variables, and with them the three locals of Parse that the scan sets
  (\<open>stopParsing\<close>, \<open>doSave\<close>, \<open>doShow\<close>) and the log.
\<close>

record 'f pstate =
  optionList :: "'f CmdOption list"
  commandList :: "CmdCommand list"
  Args :: "string list"
  Title :: string
  OptionsFile :: string
  stopParsing :: bool
  doSave :: bool
  doShow :: bool
  log :: "event list"

definition addOption ::
  "'f golib \<Rightarrow> string \<Rightarrow> string \<Rightarrow> string \<Rightarrow> string \<Rightarrow> 'f optionValue \<Rightarrow> int \<Rightarrow> 'f pstate \<Rightarrow> 'f pstate" where
  "addOption lib name cmd format help variable flags st =
     st\<lparr>optionList := optionList st @
        [\<lparr>Name = name, Group = cmd, Format = format, Help = help, Value = variable,
          Default = String_of lib variable, Flags = flags, onChange = None, onSave = None\<rparr>]\<rparr>"

definition addCommand :: "string \<Rightarrow> string \<Rightarrow> hook option \<Rightarrow> 'f pstate \<Rightarrow> 'f pstate" where
  "addCommand cmd help function st =
     st\<lparr>commandList := commandList st @ [\<lparr>Command = cmd, CHelp = help, Function = function\<rparr>]\<rparr>"

text \<open>
  The six registration functions (lines 487-535) hand the caller's variable to
  \<open>addOption\<close> as a value of its kind; the boolean has no format text.
\<close>

definition BoolOption ::
  "'f golib \<Rightarrow> string \<Rightarrow> string \<Rightarrow> string \<Rightarrow> bool \<Rightarrow> int \<Rightarrow> 'f pstate \<Rightarrow> 'f pstate" where
  "BoolOption lib name cmd help variable flags = addOption lib name cmd [] help (BoolV variable) flags"

definition IntOption ::
  "'f golib \<Rightarrow> string \<Rightarrow> string \<Rightarrow> string \<Rightarrow> string \<Rightarrow> 64 word \<Rightarrow> int \<Rightarrow> 'f pstate \<Rightarrow> 'f pstate" where
  "IntOption lib name cmd format help variable flags =
     addOption lib name cmd format help (IntV variable) flags"

definition FloatOption ::
  "'f golib \<Rightarrow> string \<Rightarrow> string \<Rightarrow> string \<Rightarrow> string \<Rightarrow> 'f \<Rightarrow> int \<Rightarrow> 'f pstate \<Rightarrow> 'f pstate" where
  "FloatOption lib name cmd format help variable flags =
     addOption lib name cmd format help (FloatV variable) flags"

definition StringOption ::
  "'f golib \<Rightarrow> string \<Rightarrow> string \<Rightarrow> string \<Rightarrow> string \<Rightarrow> string \<Rightarrow> int \<Rightarrow> 'f pstate \<Rightarrow> 'f pstate" where
  "StringOption lib name cmd format help variable flags =
     addOption lib name cmd format help (StringV variable) flags"

definition StringListOption ::
  "'f golib \<Rightarrow> string \<Rightarrow> string \<Rightarrow> string \<Rightarrow> string \<Rightarrow> string list option \<Rightarrow> int \<Rightarrow>
   'f pstate \<Rightarrow> 'f pstate" where
  "StringListOption lib name cmd format help variable flags =
     addOption lib name cmd format help (StringListV variable) flags"

definition ByteOption ::
  "'f golib \<Rightarrow> string \<Rightarrow> string \<Rightarrow> string \<Rightarrow> string \<Rightarrow> 8 word list \<Rightarrow> int \<Rightarrow> 'f pstate \<Rightarrow> 'f pstate" where
  "ByteOption lib name cmd format help variable flags =
     addOption lib name cmd format help (ByteV variable) flags"

text \<open>
  The methods \<open>OnChange\<close> and \<open>OnSave\<close> (lines 384-394) on the option at index \<open>k\<close>
  of the list.
\<close>

definition OnChange :: "nat \<Rightarrow> hook \<Rightarrow> 'f pstate \<Rightarrow> 'f pstate" where
  "OnChange k f st = st\<lparr>optionList := (optionList st)[k := (optionList st ! k)\<lparr>onChange := Some f\<rparr>]\<rparr>"

definition OnSave :: "nat \<Rightarrow> hook \<Rightarrow> 'f pstate \<Rightarrow> 'f pstate" where
  "OnSave k f st = st\<lparr>optionList := (optionList st)[k := (optionList st ! k)\<lparr>onSave := Some f\<rparr>]\<rparr>"

definition hookLog :: "hook option \<Rightarrow> event list" where
  "hookLog h = (case h of None \<Rightarrow> [] | Some f \<Rightarrow> [Called f])"

definition doChange_log :: "'f CmdOption \<Rightarrow> event list" where
  "doChange_log c = hookLog (onChange c)"

definition doSave_log :: "'f CmdOption \<Rightarrow> event list" where
  "doSave_log c = hookLog (onSave c)"

text \<open>The loop of lines 144-149: the first option of the list with the name, by index.\<close>

fun findOption :: "'f CmdOption list \<Rightarrow> string \<Rightarrow> nat option" where
  "findOption [] n = None"
| "findOption (o1 # os) n =
     (if Name o1 = n then Some 0 else map_option Suc (findOption os n))"

text \<open>The package as it is before any registration: every variable at its zero value.\<close>

definition initState :: "'f pstate" where
  "initState =
     \<lparr>optionList = [], commandList = [], Args = [], Title = [], OptionsFile = [],
      stopParsing = False, doSave = False, doShow = False, log = []\<rparr>"

section \<open>Parse (lines 113-250)\<close>

text \<open>
  Parse returns an error or nil, or it panics (an index into an empty string, or a failed
  type assertion); the package variables keep what was done up to that point.
\<close>

datatype perror =
    InvalidOption string                  \<comment> \<open>"Invalid option -" + name\<close>
  | InvalidValue string string liberr     \<comment> \<open>"Invalid value set for option ..."\<close>
  | MissingRequiredOption string          \<comment> \<open>"Missing required option -" + name\<close>
  | MissingRequiredCommand                \<comment> \<open>"Missing required command"\<close>
  | NotValidCommand string                \<comment> \<open>token + " is not a valid command"\<close>
  | LibraryError liberr                   \<comment> \<open>an error of loadOptions, jsonOptions or saveOptions\<close>

datatype exit = Returns "perror option" | Panics

text \<open>
  What Parse reads from outside the package: the argument vector, the options file as
  \<open>os.OpenFile\<close> and the JSON decoder deliver it (\<open>None\<close>: the file cannot be opened;
  \<open>Inl\<close>: it does not decode into a \<open>map[string]interface{}\<close>), and the error, if any,
  of creating the file to save.
\<close>

record 'f env =
  osArgs :: "string list"
  readFile :: "string \<Rightarrow> (liberr + (string \<Rightarrow> 'f json option)) option"
  createFile :: "string \<Rightarrow> liberr option"

subsection \<open>One option token (lines 142-193)\<close>

text \<open>\<open>strings.Split(s, "=")\<close>: every \<open>=\<close> separates; the result is never empty.\<close>

fun split_eq :: "string \<Rightarrow> string list" where
  "split_eq [] = [[]]"
| "split_eq (c # cs) =
     (if c = CHR ''='' then [] # split_eq cs
      else (case split_eq cs of [] \<Rightarrow> [[c]] | p # ps \<Rightarrow> (c # p) # ps))"

text \<open>
  The test \<open>i < len(os.Args)-1 && os.Args[i+1][0] != '-'\<close> on the tokens that follow:
  it panics when the next token is the empty string.
\<close>

datatype peek = NoValue | HasValue string | PeekPanics

definition peekValue :: "string list \<Rightarrow> peek" where
  "peekValue ts =
     (case ts of
        [] \<Rightarrow> NoValue
      | t # _ \<Rightarrow> (case t of [] \<Rightarrow> PeekPanics
                  | c # _ \<Rightarrow> if c \<noteq> CHR ''-'' then HasValue t else NoValue))"

definition setValue :: "nat \<Rightarrow> 'f optionValue \<Rightarrow> 'f pstate \<Rightarrow> 'f pstate" where
  "setValue k v st = st\<lparr>optionList := (optionList st)[k := (optionList st ! k)\<lparr>Value := v\<rparr>]\<rparr>"

definition logged :: "event list \<Rightarrow> 'f pstate \<Rightarrow> 'f pstate" where
  "logged ev st = st\<lparr>log := log st @ ev\<rparr>"

text \<open>
  Lines 154-182: the value of a token without \<open>=\<close>. The result is the pair as extended
  and whether the next token was taken (\<open>i++\<close>); \<open>None\<close> is the panic.
\<close>

definition lookahead ::
  "'f golib \<Rightarrow> 'f pstate \<Rightarrow> nat \<Rightarrow> string list \<Rightarrow> string list \<Rightarrow> ('f pstate \<times> string list \<times> bool) option" where
  "lookahead lib st k pair ts =
     (let opt = optionList st ! k in
      if length pair < 2 then
        (case Value opt of
           BoolV b \<Rightarrow>
             (case peekValue ts of
                PeekPanics \<Rightarrow> None
              | HasValue t \<Rightarrow>
                  if snd (ParseBool t) \<noteq> None then Some (st, pair @ [''true''], False)
                  else Some (st, pair @ [t], True)
              | NoValue \<Rightarrow> Some (st, pair @ [''true''], False))
         | StringListV l \<Rightarrow>
             (case peekValue ts of
                PeekPanics \<Rightarrow> None
              | HasValue t \<Rightarrow> Some (st, pair @ [t], True)
              | NoValue \<Rightarrow>
                  Some (setValue k (fst (FromString lib (Default opt) (Value opt))) st, pair, False))
         | _ \<Rightarrow>
             (case peekValue ts of
                PeekPanics \<Rightarrow> None
              | HasValue t \<Rightarrow> Some (st, pair @ [t], True)
              | NoValue \<Rightarrow> Some (st, pair @ [Default opt], False)))
      else Some (st, pair, False))"

text \<open>Lines 184-193: the pair applied, when it has exactly two elements.\<close>

definition applyPair ::
  "'f::zero golib \<Rightarrow> 'f pstate \<Rightarrow> nat \<Rightarrow> string list \<Rightarrow> 'f pstate \<times> exit option" where
  "applyPair lib st k pair =
     (let opt = optionList st ! k in
      if length pair = 2 then
        (if pair ! 1 = [] then (logged (doChange_log opt) (setValue k (Reset (Value opt)) st), None)
         else
           (case Set lib (pair ! 1) (Value opt) of
              (v, Some err) \<Rightarrow>
                (setValue k v st, Some (Returns (Some (InvalidValue (pair ! 0) (pair ! 1) err))))
            | (v, None) \<Rightarrow> (logged (doChange_log opt) (setValue k v st), None)))
      else (st, None))"

text \<open>
  Lines 142-193 for the token \<open>-body\<close> followed by \<open>ts\<close>: an exit, or the new state
  and whether the next token was taken.
\<close>

definition optionToken ::
  "'f::zero golib \<Rightarrow> 'f pstate \<Rightarrow> string \<Rightarrow> string list \<Rightarrow> 'f pstate \<times> (exit + bool)" where
  "optionToken lib st body ts =
     (let pair = split_eq body in
      case findOption (optionList st) (pair ! 0) of
        None \<Rightarrow> (st, Inl (Returns (Some (InvalidOption (pair ! 0)))))
      | Some k \<Rightarrow>
          (case lookahead lib st k pair ts of
             None \<Rightarrow> (st, Inl Panics)
           | Some (st1, pair1, taken) \<Rightarrow>
               (case applyPair lib st1 k pair1 of
                  (st2, Some x) \<Rightarrow> (st2, Inl x)
                | (st2, None) \<Rightarrow> (st2, Inr taken))))"

subsection \<open>The scan of the arguments (lines 124-197)\<close>

text \<open>
  One turn of the loop on the token \<open>t\<close> followed by \<open>ts\<close>: either Parse is left, or
  the loop goes on with a new state, past the next token as well when it was taken.
\<close>

datatype 'f turn = Leave "'f pstate" exit | Go "'f pstate" bool

definition scanTurn :: "'f::zero golib \<Rightarrow> 'f pstate \<Rightarrow> string \<Rightarrow> string list \<Rightarrow> 'f turn" where
  "scanTurn lib st t ts =
     (if \<not> stopParsing st \<and> (t = ''-?'' \<or> t = ''-h'' \<or> t = ''-H'')
      then Leave (logged [UsageShown] st) (Returns None)
      else if \<not> stopParsing st \<and> t = ''-version''
      then Leave (logged [Println (if Title st \<noteq> [] then Title st else ''No title has been set'')] st)
             (Returns None)
      else if \<not> stopParsing st \<and> t = ''--'' then Go (st\<lparr>stopParsing := True\<rparr>) False
      else if \<not> stopParsing st \<and> OptionsFile st \<noteq> [] \<and> t = ''-saveoptions''
      then Go (st\<lparr>doSave := True\<rparr>) False
      else if \<not> stopParsing st \<and> OptionsFile st \<noteq> [] \<and> t = ''-showoptions''
      then Go (st\<lparr>doShow := True\<rparr>) False
      else if \<not> stopParsing st \<and> t = [] then Leave st Panics
      else if \<not> stopParsing st \<and> hd t = CHR ''-'' then
        (case optionToken lib st (tl t) ts of
           (st', Inl x) \<Rightarrow> Leave st' x
         | (st', Inr taken) \<Rightarrow> Go st' taken)
      else Go (st\<lparr>Args := Args st @ [t]\<rparr>) False)"

text \<open>
  \<open>scan lib st ts\<close> runs the loop on the tokens \<open>ts\<close> still to be read. It ends with
  \<open>None\<close> when the loop is through, and with the exit when a turn leaves Parse.
\<close>

function scan :: "'f::zero golib \<Rightarrow> 'f pstate \<Rightarrow> string list \<Rightarrow> 'f pstate \<times> exit option" where
  "scan lib st [] = (st, None)"
| "scan lib st (t # ts) =
     (case scanTurn lib st t ts of
        Leave st' x \<Rightarrow> (st', Some x)
      | Go st' taken \<Rightarrow> scan lib st' (if taken then tl ts else ts))"
  by pat_completeness auto
termination
  by (relation "measure (\<lambda>(lib, st, ts). length ts)") auto

subsection \<open>Preferences (lines 254-322)\<close>

fun optionMapLoop ::
  "'f golib \<Rightarrow> 'f CmdOption list \<Rightarrow> (string \<Rightarrow> 'f native option) \<Rightarrow>
   (string \<Rightarrow> 'f native option) \<times> event list" where
  "optionMapLoop lib [] m = (m, [])"
| "optionMapLoop lib (v # vs) m =
     (if Flags v AND Preference > 0 \<and> String_of lib (Value v) \<noteq> Default v
      then (case optionMapLoop lib vs (m(Name v \<mapsto> Get (Value v))) of
              (m', ev) \<Rightarrow> (m', doSave_log v @ ev))
      else optionMapLoop lib vs m)"

definition jsonOptions :: "'f golib \<Rightarrow> 'f pstate \<Rightarrow> 'f pstate \<times> (liberr + string)" where
  "jsonOptions lib st =
     (case optionMapLoop lib (optionList st) Map.empty of
        (m, ev) \<Rightarrow> (logged ev st, jsonMarshalIndent lib m))"

text \<open>
  \<open>saveOptions\<close> drops the error of \<open>jsonOptions\<close> (the next assignment overwrites it)
  and writes the data, which is empty after such an error.
\<close>

definition saveOptions ::
  "'f golib \<Rightarrow> 'f env \<Rightarrow> string \<Rightarrow> 'f pstate \<Rightarrow> 'f pstate \<times> (liberr + string)" where
  "saveOptions lib e name st =
     (case jsonOptions lib st of
        (st1, r) \<Rightarrow>
          (let jsonData = (case r of Inl err \<Rightarrow> [] | Inr d \<Rightarrow> d) in
           case createFile e name of
             Some err \<Rightarrow> (st1, Inl err)
           | None \<Rightarrow> (logged [FileWritten name jsonData] st1, Inr jsonData)))"

text \<open>
  Lines 305-312: the elements of a JSON array, each asserted to be a string
  (\<open>s.(string)\<close> panics on any other element) and handed to \<open>Set\<close>.
\<close>

fun setAll :: "'f golib \<Rightarrow> 'f json list \<Rightarrow> 'f optionValue \<Rightarrow> 'f optionValue \<times> exit option" where
  "setAll lib [] v = (v, None)"
| "setAll lib (j # js) v =
     (case j of
        JString s \<Rightarrow>
          (case Set lib s v of
             (v', Some err) \<Rightarrow> (v', Some (Returns (Some (LibraryError err))))
           | (v', None) \<Rightarrow> setAll lib js v')
      | _ \<Rightarrow> (v, Some Panics))"

text \<open>\<open>fmt.Sprintf("%v", t)\<close> on what the default case of the type switch receives.\<close>

definition sprintv :: "'f golib \<Rightarrow> 'f json \<Rightarrow> string" where
  "sprintv lib j =
     (case j of JBool b \<Rightarrow> fmtBool b | JNumber x \<Rightarrow> fmtFloat lib x | JString s \<Rightarrow> s | _ \<Rightarrow> [])"

text \<open>Lines 300-318: the type switch on the decoded value, for one option.\<close>

definition loadOption ::
  "'f::zero golib \<Rightarrow> 'f CmdOption \<Rightarrow> 'f json \<Rightarrow> 'f CmdOption \<times> event list \<times> exit option" where
  "loadOption lib c v =
     (case v of
        JNull \<Rightarrow> (c\<lparr>Value := Reset (Value c)\<rparr>, [], None)
      | JObject kvs \<Rightarrow> (c, [], None)
      | JArray t \<Rightarrow>
          (case setAll lib t (Reset (Value c)) of
             (v', Some x) \<Rightarrow> (c\<lparr>Value := v'\<rparr>, [], Some x)
           | (v', None) \<Rightarrow> (c\<lparr>Value := v'\<rparr>, doChange_log c, None))
      | _ \<Rightarrow>
          (case Set lib (sprintv lib v) (Value c) of
             (v', Some err) \<Rightarrow> (c\<lparr>Value := v'\<rparr>, [], Some (Returns (Some (LibraryError err))))
           | (v', None) \<Rightarrow> (c\<lparr>Value := v'\<rparr>, doChange_log c, None)))"

fun loadLoop ::
  "'f::zero golib \<Rightarrow> (string \<Rightarrow> 'f json option) \<Rightarrow> 'f CmdOption list \<Rightarrow>
   'f CmdOption list \<times> event list \<times> exit option" where
  "loadLoop lib m [] = ([], [], None)"
| "loadLoop lib m (c # cs) =
     (case m (Name c) of
        None \<Rightarrow> (case loadLoop lib m cs of (cs', ev, x) \<Rightarrow> (c # cs', ev, x))
      | Some v \<Rightarrow>
          (case loadOption lib c v of
             (c', ev, Some x) \<Rightarrow> (c' # cs, ev, Some x)
           | (c', ev, None) \<Rightarrow>
               (case loadLoop lib m cs of (cs', ev', x) \<Rightarrow> (c' # cs', ev @ ev', x))))"

definition loadOptions :: "'f::zero golib \<Rightarrow> 'f env \<Rightarrow> string \<Rightarrow> 'f pstate \<Rightarrow> 'f pstate \<times> exit" where
  "loadOptions lib e name st =
     (case readFile e name of
        None \<Rightarrow> (st, Returns None)
      | Some (Inl err) \<Rightarrow> (st, Returns (Some (LibraryError err)))
      | Some (Inr m) \<Rightarrow>
          (case loadLoop lib m (optionList st) of
             (cs, ev, x) \<Rightarrow>
               (logged ev (st\<lparr>optionList := cs\<rparr>),
                case x of None \<Rightarrow> Returns None | Some x' \<Rightarrow> x')))"

subsection \<open>Dispatch (lines 219-246)\<close>

text \<open>
  The loop of lines 220-227 with \<open>cur\<close> the command chosen so far: a command named as the
  second element of \<open>Args\<close> ends the loop, an unnamed command is kept and the loop goes on.
\<close>

fun selectCommand :: "CmdCommand list \<Rightarrow> string list \<Rightarrow> CmdCommand option \<Rightarrow> CmdCommand option" where
  "selectCommand [] args cur = cur"
| "selectCommand (c # cs) args cur =
     (if (length args > 1 \<and> Command c = args ! 1) \<or> Command c = []
      then (if Command c \<noteq> [] then Some c else selectCommand cs args (Some c))
      else selectCommand cs args cur)"

text \<open>The loop of lines 229-233: the name of the first required option still at its default.\<close>

fun requiredCheck :: "'f golib \<Rightarrow> 'f CmdOption list \<Rightarrow> string option" where
  "requiredCheck lib [] = None"
| "requiredCheck lib (n # ns) =
     (if Flags n AND Required > 0 \<and> String_of lib (Value n) = Default n then Some (Name n)
      else requiredCheck lib ns)"

definition dispatch :: "'f golib \<Rightarrow> 'f pstate \<Rightarrow> 'f pstate \<times> exit" where
  "dispatch lib st =
     (case selectCommand (commandList st) (Args st) None of
        Some command \<Rightarrow>
          (case requiredCheck lib (optionList st) of
             Some n \<Rightarrow> (st, Returns (Some (MissingRequiredOption n)))
           | None \<Rightarrow> (logged (hookLog (Function command)) st, Returns None))
      | None \<Rightarrow>
          if length (Args st) < 2
          then (logged [UsageShown] st, Returns (Some MissingRequiredCommand))
          else (st, Returns (Some (NotValidCommand (Args st ! 1)))))"

subsection \<open>Parse\<close>

text \<open>Lines 199-248: what follows a scan that ran through.\<close>

definition afterScan :: "'f golib \<Rightarrow> 'f env \<Rightarrow> 'f pstate \<Rightarrow> 'f pstate \<times> exit" where
  "afterScan lib e st =
     (if doShow st then
        (case jsonOptions lib st of
           (st', Inl err) \<Rightarrow> (st', Returns (Some (LibraryError err)))
         | (st', Inr js) \<Rightarrow> (logged [Println js] st', Returns None))
      else if doSave st then
        (case saveOptions lib e (OptionsFile st) st of
           (st', Inl err) \<Rightarrow> (st', Returns (Some (LibraryError err)))
         | (st', Inr js) \<Rightarrow>
             (logged [Println (''Options saved to '' @ OptionsFile st)] st', Returns None))
      else dispatch lib st)"

definition Parse :: "'f::zero golib \<Rightarrow> 'f env \<Rightarrow> 'f pstate \<Rightarrow> 'f pstate \<times> exit" where
  "Parse lib e st =
     (case (if OptionsFile st \<noteq> [] then loadOptions lib e (OptionsFile st) st
            else (st, Returns None)) of
        (st1, Returns None) \<Rightarrow>
          (case scan lib (st1\<lparr>stopParsing := False, doSave := False, doShow := False, Args := []\<rparr>)
                  (osArgs e) of
             (st2, Some x) \<Rightarrow> (st2, x)
           | (st2, None) \<Rightarrow> afterScan lib e st2)
      | (st1, x) \<Rightarrow> (st1, x))"

section \<open>Stand-ins and registries to run the model on\<close>

text \<open>
  A stand-in for the library parameters, for running the model on concrete inputs. A
  float64 is stood in for by the integer it holds (of magnitude below \<open>2^53\<close>, which a
  float64 holds exactly). \<open>%v\<close> writes such a float as strconv does with format \<open>g\<close>
  and the shortest precision: the plain digits while the decimal exponent is below 6,
  otherwise the digits without trailing zeros, a point after the first, and the exponent
  with at least two digits. The stand-in reads a float from an integer literal only (so
  it stands for float options that hold integers below \<open>10^6\<close>), writes a list of
  strings that need no escaping, and leaves the other JSON functions out.
\<close>

definition fmtFloatInt :: "int \<Rightarrow> string" where
  "fmtFloatInt n =
     (let ds = decimal (nat \<bar>n\<bar>);
          e = length ds - 1;
          m = rev (dropWhile (\<lambda>c. c = CHR ''0'') (rev ds))
      in (if n < 0 then ''-'' else []) @
         (if e < 6 then ds
          else hd m # (if tl m = [] then [] else CHR ''.'' # tl m) @ ''e+'' @
               (if e < 10 then CHR ''0'' # decimal e else decimal e)))"

fun joinQuoted :: "string list \<Rightarrow> string" where
  "joinQuoted [] = []"
| "joinQuoted [x] = CHR 0x22 # x @ [CHR 0x22]"
| "joinQuoted (x # xs) = CHR 0x22 # x @ [CHR 0x22] @ CHR '','' # joinQuoted xs"

definition sampleLib :: "int golib" where
  "sampleLib =
     \<lparr>fmtFloat = fmtFloatInt,
      ParseFloat = (\<lambda>s. case ParseInt s of (v, e) \<Rightarrow> (sint v, e)),
      jsonMarshalStrings = (\<lambda>xs. CHR ''['' # joinQuoted xs @ '']''),
      jsonUnmarshalStrings = (\<lambda>v s. (s, Some (OtherError ''unsupported''))),
      jsonMarshalIndent = (\<lambda>m. Inl (OtherError ''unsupported''))\<rparr>"

text \<open>
  What encoding/json makes of a native value that is written to the document and decoded
  again into a \<open>map[string]interface{}\<close>: a number comes back as a float64 whatever it
  was, a byte slice as its base64 text, a nil slice as null.
\<close>

fun jsonRoundTrip :: "int native \<Rightarrow> int json" where
  "jsonRoundTrip (NBool b) = JBool b"
| "jsonRoundTrip (NInt i) = JNumber (sint i)"
| "jsonRoundTrip (NFloat x) = JNumber x"
| "jsonRoundTrip (NString s) = JString s"
| "jsonRoundTrip (NStrings None) = JNull"
| "jsonRoundTrip (NStrings (Some xs)) = JArray (map JString xs)"
| "jsonRoundTrip (NBytes bs) = JString (EncodeToString bs)"

text \<open>
  A registry to run the model on: a boolean preference \<open>verbose\<close> with both callbacks,
  a string \<open>a\<close>, a string list \<open>tag\<close> registered with a nil slice and an on-change
  callback, an integer preference \<open>size\<close>; the default command and the command \<open>copy\<close>.
\<close>

definition demo :: "int pstate" where
  "demo =
     addCommand ''copy'' ''copy files'' (Some 2)
      (addCommand [] [] (Some 1)
        (addOption sampleLib ''size'' [] ''<MiB>'' [] (IntV 0) Preference
          (OnChange 2 12
            (addOption sampleLib ''tag'' ''copy'' [] [] (StringListV None) Standard
              (addOption sampleLib ''a'' [] [] [] (StringV []) Standard
                (OnSave 0 20 (OnChange 0 10
                  (addOption sampleLib ''verbose'' [] [] [] (BoolV False) Preference
                     initState))))))))"

definition demoEnv :: "string list \<Rightarrow> int env" where
  "demoEnv args = \<lparr>osArgs = args, readFile = (\<lambda>n. None), createFile = (\<lambda>n. None)\<rparr>"

text \<open>A registry with one required option and no command.\<close>

definition demoUser :: "int pstate" where
  "demoUser = addOption sampleLib ''user'' [] ''<username>'' ''Username'' (StringV []) Required initState"

section \<open>Registration\<close>

lemma findOption_append:
  "findOption os n = Some k \<Longrightarrow> findOption (os @ os') n = Some k"
  by (induction os arbitrary: k) (auto split: if_splits)

lemma findOption_Some:
  "findOption os n = Some k \<Longrightarrow> k < length os \<and> Name (os ! k) = n"
  by (induction os arbitrary: k) (auto split: if_splits)

text \<open>
  C9 (as the code has it). \<open>addOption\<close> has no check of the name: it always appends a
  new definition, so registering a name again leaves one more definition of that name in
  the registry, and a lookup by name still finds the earlier one.
\<close>

theorem C9_addOption_appends:
  "optionList (addOption lib name cmd format help v flags st) =
     optionList st @
       [\<lparr>Name = name, Group = cmd, Format = format, Help = help, Value = v,
         Default = String_of lib v, Flags = flags, onChange = None, onSave = None\<rparr>]
   \<and> length (filter (\<lambda>c. Name c = name) (optionList (addOption lib name cmd format help v flags st)))
       = Suc (length (filter (\<lambda>c. Name c = name) (optionList st)))
   \<and> (findOption (optionList st) n = Some k \<longrightarrow>
        findOption (optionList (addOption lib name cmd format help v flags st)) n = Some k)"
  by (simp add: addOption_def findOption_append)

theorem C9_addOption_appends_witness:
  "findOption (optionList (addOption sampleLib ''x'' [] [] [] (BoolV False) 1 initState)) ''x'' = Some 0
   \<and> findOption (optionList (addOption sampleLib ''x'' [] [] [] (IntV 7) 1
        (addOption sampleLib ''x'' [] [] [] (BoolV False) 1 initState))) ''x'' = Some 0"
proof -
  have h: "findOption (optionList (addOption sampleLib ''x'' [] [] [] (BoolV False) 1 initState)) ''x'' = Some 0"
    by (simp add: addOption_def initState_def)
  from C9_addOption_appends [of sampleLib "''x''" "[]" "[]" "[]" "IntV 7" 1
      "addOption sampleLib ''x'' [] [] [] (BoolV False) 1 initState" "''x''" 0] h
  show ?thesis by blast
qed

text \<open>
  The claim as stated fails: after two registrations of \<open>x\<close> the registry holds two
  definitions named \<open>x\<close>.
\<close>

theorem C9_duplicate_counterexample:
  "length (filter (\<lambda>c. Name c = ''x'')
     (optionList (addOption sampleLib ''x'' [] [] [] (IntV 7) 1
        (addOption sampleLib ''x'' [] [] [] (BoolV False) 1 initState)))) = 2"
  by (simp add: addOption_def initState_def)

section \<open>Running the model\<close>

lemma fmtInt_0: "fmtInt 0 = ''0''"
  by (simp add: fmtInt_def digits_def decimal.simps)

lemma demo_eq:
  "demo =
   \<lparr>optionList =
      [\<lparr>Name = ''verbose'', Group = [], Format = [], Help = [],
        Value = BoolV False, Default = ''false'', Flags = 2,
        onChange = Some 10, onSave = Some 20\<rparr>,
       \<lparr>Name = ''a'', Group = [], Format = [], Help = [], Value = StringV [],
        Default = [], Flags = 1, onChange = None, onSave = None\<rparr>,
       \<lparr>Name = ''tag'', Group = ''copy'', Format = [], Help = [],
        Value = StringListV None, Default = [], Flags = 1,
        onChange = Some 12, onSave = None\<rparr>,
       \<lparr>Name = ''size'', Group = [], Format = ''<MiB>'', Help = [],
        Value = IntV 0, Default = ''0'', Flags = 2, onChange = None,
        onSave = None\<rparr>],
    commandList =
      [\<lparr>Command = [], CHelp = [], Function = Some 1\<rparr>,
       \<lparr>Command = ''copy'', CHelp = ''copy files'', Function = Some 2\<rparr>],
    Args = [], Title = [], OptionsFile = [], stopParsing = False,
    doSave = False, doShow = False, log = []\<rparr>"
  by (simp add: demo_def addCommand_def addOption_def OnChange_def OnSave_def initState_def
      fmtBool_def fmtInt_0 Preference_def Standard_def)

lemmas run_defs = scanTurn_def optionToken_def lookahead_def applyPair_def peekValue_def
  setValue_def logged_def doChange_log_def hookLog_def ParseBool_def

section \<open>Literal mode\<close>

lemma lookahead_peek:
  "peekValue ts = p \<Longrightarrow> peekValue ts' = p \<Longrightarrow>
   lookahead lib st k pair ts = lookahead lib st k pair ts'"
  by (simp add: lookahead_def Let_def split: optionValue.splits)

lemma optionToken_peek:
  "peekValue ts = peekValue ts' \<Longrightarrow> optionToken lib st b ts = optionToken lib st b ts'"
  using lookahead_peek [of ts "peekValue ts'" ts' lib st]
  by (simp add: optionToken_def Let_def split: option.splits)

lemma scanTurn_peek:
  "peekValue ts = peekValue ts' \<Longrightarrow> scanTurn lib st t ts = scanTurn lib st t ts'"
  using optionToken_peek [of ts ts' lib st "tl t"] by (simp add: scanTurn_def)

lemma lookahead_taken:
  "lookahead lib st k pair ts = Some (st1, pair1, True) \<Longrightarrow> \<exists>t. peekValue ts = HasValue t"
  by (auto simp: lookahead_def Let_def split: if_splits optionValue.splits peek.splits)

lemma optionToken_taken:
  "optionToken lib st b ts = (st', Inr True) \<Longrightarrow> \<exists>t. peekValue ts = HasValue t"
  by (auto simp: optionToken_def Let_def split: option.splits prod.splits dest: lookahead_taken)

lemma scanTurn_taken:
  "scanTurn lib st t ts = Go st' True \<Longrightarrow> \<exists>t'. peekValue ts = HasValue t'"
  by (auto simp: scanTurn_def split: if_splits prod.splits sum.splits dest: optionToken_taken)

lemma scanTurn_literal:
  "stopParsing st \<Longrightarrow> scanTurn lib st t ts = Go (st\<lparr>Args := Args st @ [t]\<rparr>) False"
  by (simp add: scanTurn_def)

lemma scanTurn_dashes:
  "\<not> stopParsing st \<Longrightarrow> scanTurn lib st ''--'' ts = Go (st\<lparr>stopParsing := True\<rparr>) False"
  by (simp add: scanTurn_def)

lemma scan_literal:
  "stopParsing st \<Longrightarrow> scan lib st ts = (st\<lparr>Args := Args st @ ts\<rparr>, None)"
  by (induction ts arbitrary: st) (auto simp: scanTurn_literal)

lemma peekValue_dashes:
  "peekValue (ts @ ''--'' # rest) = peekValue (ts @ [''--''])"
  by (cases ts) (auto simp: peekValue_def)

lemma taken_dashes:
  "peekValue (ts @ [''--'']) = HasValue t' \<Longrightarrow> ts \<noteq> []"
  by (cases ts) (auto simp: peekValue_def)

lemma scan_dashes:
  "scan lib st (pre @ ''--'' # rest) =
     (case scan lib st (pre @ [''--'']) of
        (st', None) \<Rightarrow> (st'\<lparr>Args := Args st' @ rest\<rparr>, None)
      | (st', Some x) \<Rightarrow> (st', Some x))
   \<and> (\<forall>st'. scan lib st (pre @ [''--'']) = (st', None) \<longrightarrow> stopParsing st')"
proof (induction pre arbitrary: st rule: length_induct)
  case (1 pre)
  show ?case
  proof (cases pre)
    case Nil
    then show ?thesis
      by (cases "stopParsing st") (auto simp: scanTurn_literal scanTurn_dashes scan_literal)
  next
    case (Cons t ts)
    note turn = scanTurn_peek [OF peekValue_dashes, of lib st t ts rest]
    show ?thesis
    proof (cases "scanTurn lib st t (ts @ [''--''])")
      case (Leave st1 x)
      with turn Cons show ?thesis by simp
    next
      case (Go st1 taken)
      show ?thesis
      proof (cases taken)
        case False
        from 1 Cons have "length ts < length pre" by simp
        with 1 have ih: "scan lib st1 (ts @ ''--'' # rest) =
             (case scan lib st1 (ts @ [''--'']) of
                (st', None) \<Rightarrow> (st'\<lparr>Args := Args st' @ rest\<rparr>, None)
              | (st', Some x) \<Rightarrow> (st', Some x))
            \<and> (\<forall>st'. scan lib st1 (ts @ [''--'']) = (st', None) \<longrightarrow> stopParsing st')"
          by blast
        from False Go turn Cons ih show ?thesis by simp
      next
        case True
        with Go have "ts \<noteq> []" by (auto dest: scanTurn_taken taken_dashes)
        then have len: "length (tl ts) < length pre"
          and tl: "tl (ts @ ''--'' # rest) = tl ts @ ''--'' # rest"
                  "tl (ts @ [''--'']) = tl ts @ [''--'']"
          using Cons by auto
        from len 1 have ih: "scan lib st1 (tl ts @ ''--'' # rest) =
             (case scan lib st1 (tl ts @ [''--'']) of
                (st', None) \<Rightarrow> (st'\<lparr>Args := Args st' @ rest\<rparr>, None)
              | (st', Some x) \<Rightarrow> (st', Some x))
            \<and> (\<forall>st'. scan lib st1 (tl ts @ [''--'']) = (st', None) \<longrightarrow> stopParsing st')"
          by blast
        from True Go turn Cons ih tl show ?thesis by simp
      qed
    qed
  qed
qed

text \<open>
  C8. In literal mode the scan appends every remaining token to \<open>Args\<close> and changes
  nothing else: no option is looked up, no flag set, nothing logged, and the loop never
  leaves Parse. And once the scan has read a \<open>--\<close> (the tokens \<open>pre\<close> before it and the
  \<open>--\<close> itself read without leaving Parse), literal mode is on, so whatever tokens
  \<open>rest\<close> follow are appended as they are.
\<close>

theorem C8_literal_mode:
  "(stopParsing st \<longrightarrow> scan lib st ts = (st\<lparr>Args := Args st @ ts\<rparr>, None))
   \<and> (scan lib st (pre @ [''--'']) = (st', None) \<longrightarrow>
        stopParsing st' \<and>
        scan lib st (pre @ ''--'' # rest) = (st'\<lparr>Args := Args st' @ rest\<rparr>, None))"
  using scan_dashes [of lib st pre rest] by (simp add: scan_literal)

theorem C8_literal_mode_witness:
  "snd (scan sampleLib demo ([''prog'', ''-a'', ''1''] @ [''--''])) = None
   \<and> snd (scan sampleLib demo [''prog'', ''-a'', ''1'', ''--'', ''-b'', ''-h'', []]) = None
   \<and> Args (fst (scan sampleLib demo [''prog'', ''-a'', ''1'', ''--'', ''-b'', ''-h'', []]))
       = [''prog'', ''-b'', ''-h'', []]
   \<and> Value (optionList (fst (scan sampleLib demo [''prog'', ''-a'', ''1'', ''--'', ''-b'', ''-h'', []])) ! 1)
       = StringV ''1''
   \<and> log (fst (scan sampleLib demo [''prog'', ''-a'', ''1'', ''--'', ''-b'', ''-h'', []])) = []"
proof -
  let ?pre = "[''prog'', ''-a'', ''1'']"
  let ?st' = "fst (scan sampleLib demo (?pre @ [''--'']))"
  have ev: "scan sampleLib demo (?pre @ [''--'']) =
      (demo\<lparr>optionList := (optionList demo)[1 := (optionList demo ! 1)\<lparr>Value := StringV ''1''\<rparr>],
            Args := [''prog''], stopParsing := True\<rparr>, None)"
    by (simp add: demo_eq run_defs)
  then have h: "scan sampleLib demo (?pre @ [''--'']) = (?st', None)"
    by simp
  from C8_literal_mode [where st = demo and lib = sampleLib and ts = "[]" and pre = ?pre
      and st' = ?st' and rest = "[''-b'', ''-h'', []]"] h
  have full: "scan sampleLib demo (?pre @ ''--'' # [''-b'', ''-h'', []]) =
          (?st'\<lparr>Args := Args ?st' @ [''-b'', ''-h'', []]\<rparr>, None)"
    by blast
  have split: "[''prog'', ''-a'', ''1'', ''--'', ''-b'', ''-h'', []] =
      ?pre @ ''--'' # [''-b'', ''-h'', []]"
    by simp
  show ?thesis
    unfolding split full ev by (simp add: demo_eq)
qed

section \<open>Command dispatch\<close>






section \<open>Required options\<close>

lemma requiredCheck_find:
  "requiredCheck lib cs =
     map_option Name (find (\<lambda>c. Flags c AND Required > 0 \<and> String_of lib (Value c) = Default c) cs)"
  by (induction cs) auto

lemma setAll_exit:
  "setAll lib js v = (v', Some x) \<Longrightarrow> x = Panics \<or> (\<exists>err. x = Returns (Some (LibraryError err)))"
  by (induction js arbitrary: v) (auto split: json.splits prod.splits option.splits)

lemma loadOption_exit:
  "loadOption lib c v = (c', ev, Some x) \<Longrightarrow> x = Panics \<or> (\<exists>err. x = Returns (Some (LibraryError err)))"
  by (auto simp: loadOption_def split: json.splits prod.splits option.splits dest: setAll_exit)

lemma loadLoop_exit:
  "loadLoop lib m cs = (cs', ev, Some x) \<Longrightarrow> x = Panics \<or> (\<exists>err. x = Returns (Some (LibraryError err)))"
  by (induction cs arbitrary: cs' ev) (auto split: option.splits prod.splits dest: loadOption_exit)

lemma loadOptions_exit:
  "loadOptions lib e name st = (st', x) \<Longrightarrow>
   x = Returns None \<or> x = Panics \<or> (\<exists>err. x = Returns (Some (LibraryError err)))"
  by (auto simp: loadOptions_def split: option.splits sum.splits prod.splits dest: loadLoop_exit)

lemma applyPair_exit:
  "applyPair lib st k pair = (st', Some x) \<Longrightarrow> \<exists>a b err. x = Returns (Some (InvalidValue a b err))"
  by (auto simp: applyPair_def Let_def split: if_splits prod.splits option.splits)

lemma optionToken_exit:
  "optionToken lib st b ts = (st', Inl x) \<Longrightarrow>
   x = Panics \<or> (\<exists>a. x = Returns (Some (InvalidOption a))) \<or> (\<exists>a b err. x = Returns (Some (InvalidValue a b err)))"
  by (auto simp: optionToken_def Let_def split: option.splits prod.splits dest: applyPair_exit)

lemma scanTurn_exit:
  "scanTurn lib st t ts = Leave st' x \<Longrightarrow>
   x = Returns None \<or> x = Panics \<or> (\<exists>a. x = Returns (Some (InvalidOption a))) \<or>
   (\<exists>a b err. x = Returns (Some (InvalidValue a b err)))"
  by (auto simp: scanTurn_def split: if_splits prod.splits sum.splits dest: optionToken_exit)

lemma scan_exit:
  "scan lib st ts = (st', Some x) \<Longrightarrow>
   x = Returns None \<or> x = Panics \<or> (\<exists>a. x = Returns (Some (InvalidOption a))) \<or>
   (\<exists>a b err. x = Returns (Some (InvalidValue a b err)))"
proof (induction lib st ts rule: scan.induct)
  case (1 lib st)
  then show ?case by simp
next
  case (2 lib st t ts)
  show ?case
  proof (cases "scanTurn lib st t ts")
    case (Leave st1 x1)
    with 2(2) scanTurn_exit [OF Leave] show ?thesis by auto
  next
    case (Go st1 taken)
    with 2 show ?thesis by auto
  qed
qed

lemma afterScan_required:
  "afterScan lib e st = (st', Returns (Some (MissingRequiredOption n))) \<longleftrightarrow>
     st' = st \<and> \<not> doShow st \<and> \<not> doSave st \<and>
     selectCommand (commandList st) (Args st) None \<noteq> None \<and>
     requiredCheck lib (optionList st) = Some n"
  by (auto simp: afterScan_def dispatch_def saveOptions_def jsonOptions_def Let_def
      split: prod.splits sum.splits option.splits if_splits)

lemma demoUser_eq:
  "demoUser = \<lparr>optionList =
      [\<lparr>Name = ''user'', Group = [], Format = ''<username>'', Help = ''Username'',
        Value = StringV [], Default = [], Flags = 4, onChange = None, onSave = None\<rparr>],
    commandList = [], Args = [], Title = [], OptionsFile = [], stopParsing = False,
    doSave = False, doShow = False, log = []\<rparr>"
  by (simp add: demoUser_def addOption_def initState_def Required_def)

lemma Parse_required_iff:
  "Parse lib e st = (st', Returns (Some (MissingRequiredOption n))) \<longleftrightarrow>
     (\<exists>st1. (if OptionsFile st \<noteq> [] then loadOptions lib e (OptionsFile st) st
             else (st, Returns None)) = (st1, Returns None)
        \<and> scan lib (st1\<lparr>stopParsing := False, doSave := False, doShow := False, Args := []\<rparr>)
             (osArgs e) = (st', None)
        \<and> \<not> doShow st' \<and> \<not> doSave st'
        \<and> selectCommand (commandList st') (Args st') None \<noteq> None
        \<and> requiredCheck lib (optionList st') = Some n)"
  (is "?L \<longleftrightarrow> ?R")
proof
  assume L: ?L
  obtain st1 x1 where pre: "(if OptionsFile st \<noteq> [] then loadOptions lib e (OptionsFile st) st
             else (st, Returns None)) = (st1, x1)"
    by (cases "if OptionsFile st \<noteq> [] then loadOptions lib e (OptionsFile st) st
             else (st, Returns None)") auto
  have x1: "x1 = Returns None"
  proof (rule ccontr)
    assume "x1 \<noteq> Returns None"
    with L pre have "x1 = Returns (Some (MissingRequiredOption n))"
      by (auto simp: Parse_def split: exit.splits option.splits)
    with pre loadOptions_exit [of lib e "OptionsFile st" st st1 x1] show False
      by (auto split: if_splits)
  qed
  obtain st2 r where sc: "scan lib (st1\<lparr>stopParsing := False, doSave := False, doShow := False, Args := []\<rparr>)
             (osArgs e) = (st2, r)"
    by (cases "scan lib (st1\<lparr>stopParsing := False, doSave := False, doShow := False, Args := []\<rparr>) (osArgs e)") auto
  have r: "r = None"
  proof (cases r)
    case None then show ?thesis .
  next
    case (Some x)
    with L pre x1 sc have "x = Returns (Some (MissingRequiredOption n))"
      by (simp add: Parse_def)
    with scan_exit [of lib _ "osArgs e" st2 x] sc Some show ?thesis by auto
  qed
  from L pre x1 sc r have "afterScan lib e st2 = (st', Returns (Some (MissingRequiredOption n)))"
    by (simp add: Parse_def)
  with pre x1 sc r show ?R
    by (auto simp: afterScan_required)
next
  assume ?R
  then show ?L
    by (auto simp: Parse_def afterScan_required split: if_splits)
qed


text \<open>
  C6 (as the code has it). Parse ends with "Missing required option -n" exactly when the
  options file, if one is configured, loaded without error, the scan ran through, neither
  \<open>-showoptions\<close> nor \<open>-saveoptions\<close> was given, a command was chosen, and \<open>n\<close> names
  the first registered option with the Required flag whose text equals its default. The
  state is then the one the scan left: no command function has been called.
\<close>

theorem C6_required_option:
  "(Parse lib e st = (st', Returns (Some (MissingRequiredOption n))) \<longleftrightarrow>
     (\<exists>st1. (if OptionsFile st \<noteq> [] then loadOptions lib e (OptionsFile st) st
             else (st, Returns None)) = (st1, Returns None)
        \<and> scan lib (st1\<lparr>stopParsing := False, doSave := False, doShow := False, Args := []\<rparr>)
             (osArgs e) = (st', None)
        \<and> \<not> doShow st' \<and> \<not> doSave st'
        \<and> selectCommand (commandList st') (Args st') None \<noteq> None
        \<and> requiredCheck lib (optionList st') = Some n))
   \<and> requiredCheck lib cs =
       map_option Name
         (find (\<lambda>c. Flags c AND Required > 0 \<and> String_of lib (Value c) = Default c) cs)"
  using Parse_required_iff [of lib e st st' n] requiredCheck_find [of lib cs] by blast

theorem C6_required_option_witness:
  "Parse sampleLib (demoEnv [''prog'']) (addCommand [] [] (Some 1) demoUser) =
     ((addCommand [] [] (Some 1) demoUser)\<lparr>Args := [''prog'']\<rparr>,
      Returns (Some (MissingRequiredOption ''user'')))"
proof -
  let ?st = "addCommand [] [] (Some 1) demoUser"
  have "scan sampleLib (?st\<lparr>stopParsing := False, doSave := False, doShow := False, Args := []\<rparr>)
          (osArgs (demoEnv [''prog''])) = (?st\<lparr>Args := [''prog'']\<rparr>, None)"
    by (simp add: demoUser_eq addCommand_def demoEnv_def run_defs)
  moreover have "OptionsFile ?st = []" "\<not> doShow (?st\<lparr>Args := [''prog'']\<rparr>)"
    "\<not> doSave (?st\<lparr>Args := [''prog'']\<rparr>)"
    "selectCommand (commandList (?st\<lparr>Args := [''prog'']\<rparr>)) (Args (?st\<lparr>Args := [''prog'']\<rparr>)) None \<noteq> None"
    "requiredCheck sampleLib (optionList (?st\<lparr>Args := [''prog'']\<rparr>)) = Some ''user''"
    by (simp_all add: demoUser_eq addCommand_def Required_def)
  ultimately show ?thesis
    using C6_required_option [of sampleLib "demoEnv [''prog'']" ?st "?st\<lparr>Args := [''prog'']\<rparr>" "''user''"]
    by auto
qed

text \<open>
  The claim as stated fails: with a required option at its default and no command
  registered, Parse ends with "Missing required command", not with the error that names
  the option.
\<close>

theorem C6_no_command_counterexample:
  "requiredCheck sampleLib (optionList demoUser) = Some ''user''
   \<and> Parse sampleLib (demoEnv [''prog'']) demoUser =
       (demoUser\<lparr>Args := [''prog''], log := [UsageShown]\<rparr>, Returns (Some MissingRequiredCommand))"
  by (simp add: demoUser_eq Required_def Parse_def demoEnv_def run_defs afterScan_def dispatch_def)

section \<open>Option tokens\<close>







text \<open>
  C2 (the code at the failing input). A string list registered with a nil slice has the
  default text \<open>""\<close>. After \<open>-tag a\<close>, a bare \<open>-tag\<close> hands that text to
  \<open>json.Unmarshal\<close>, which rejects it; the error is dropped, the list keeps \<open>a\<close>, and
  the on-change callback (12) is called for the first token only. This holds for every
  library.
\<close>

theorem C2_bare_list_option_keeps_list:
  "Parse lib
     \<lparr>osArgs = [''prog'', ''-tag'', ''a'', ''-tag''], readFile = (\<lambda>n. None), createFile = (\<lambda>n. None)\<rparr>
     (addCommand [] [] (Some 1)
       (OnChange 0 12 (addOption lib ''tag'' [] [] [] (StringListV None) Standard initState)))
   = (\<lparr>optionList =
        [\<lparr>Name = ''tag'', Group = [], Format = [], Help = [], Value = StringListV (Some [''a'']),
          Default = [], Flags = 1, onChange = Some 12, onSave = None\<rparr>],
       commandList = [\<lparr>Command = [], CHelp = [], Function = Some 1\<rparr>],
       Args = [''prog''], Title = [], OptionsFile = [], stopParsing = False, doSave = False,
       doShow = False, log = [Called 12, Called 1]\<rparr>,
      Returns None)"
  by (simp add: Parse_def addCommand_def OnChange_def addOption_def initState_def Standard_def
      run_defs json_Unmarshal_def afterScan_def dispatch_def Required_def)

section \<open>Loading preferences\<close>






section \<open>Text round trips\<close>

subsection \<open>Integers\<close>

lemma digitVal_digits: "n < 10 \<Longrightarrow> digitVal (digits ! n) = Some n"
proof -
  assume "n < 10"
  then have "n \<in> {0,1,2,3,4,5,6,7,8,9}" by auto
  then show ?thesis by (auto simp: digits_def digitVal_def)
qed

lemma digits_not_zero: "0 < n \<Longrightarrow> n < 10 \<Longrightarrow> digits ! n \<noteq> CHR ''0''"
proof -
  assume "0 < n" "n < 10"
  then have "n \<in> {1,2,3,4,5,6,7,8,9}" by auto
  then show ?thesis by (auto simp: digits_def)
qed

lemma digits_not_sign: "n < 10 \<Longrightarrow> digits ! n \<noteq> CHR ''-'' \<and> digits ! n \<noteq> CHR ''+''"
proof -
  assume "n < 10"
  then have "n \<in> {0,1,2,3,4,5,6,7,8,9}" by auto
  then show ?thesis by (auto simp: digits_def)
qed

lemma decimal_nonempty: "decimal n \<noteq> []"
  by (induction n rule: decimal.induct) (subst decimal.simps, simp)

lemma hd_decimal_not_zero: "0 < n \<Longrightarrow> hd (decimal n) \<noteq> CHR ''0''"
proof (induction n rule: decimal.induct)
  case (1 n)
  show ?case
  proof (cases "n < 10")
    case True
    with 1(2) show ?thesis by (subst decimal.simps) (simp add: digits_not_zero)
  next
    case False
    then have "0 < n div 10" by simp
    with 1(1) False have "hd (decimal (n div 10)) \<noteq> CHR ''0''" by simp
    with False show ?thesis
      by (subst decimal.simps) (simp add: decimal_nonempty)
  qed
qed

lemma hd_decimal_not_sign: "hd (decimal n) \<noteq> CHR ''-'' \<and> hd (decimal n) \<noteq> CHR ''+''"
proof (induction n rule: decimal.induct)
  case (1 n)
  show ?case
  proof (cases "n < 10")
    case True
    then show ?thesis by (subst (1 2) decimal.simps) (simp add: digits_not_sign)
  next
    case False
    with 1 show ?thesis
      by (subst (1 2) decimal.simps) (simp add: decimal_nonempty)
  qed
qed

lemma uintLoop_append:
  "uintLoop b acc (xs @ ys) =
     (case uintLoop b acc xs of (v, None) \<Rightarrow> uintLoop b v ys | (v, Some e) \<Rightarrow> (v, Some e))"
  by (induction xs arbitrary: acc) (auto split: option.splits)

lemma uintLoop_decimal: "n \<le> maxUint64 \<Longrightarrow> uintLoop 10 0 (decimal n) = (n, None)"
proof (induction n rule: decimal.induct)
  case (1 n)
  show ?case
  proof (cases "n < 10")
    case True
    with 1(2) show ?thesis
      by (subst decimal.simps) (simp add: digitVal_digits maxUint64_def)
  next
    case False
    with 1 have ih: "uintLoop 10 0 (decimal (n div 10)) = (n div 10, None)" by simp
    have d: "digitVal (digits ! (n mod 10)) = Some (n mod 10)" by (simp add: digitVal_digits)
    have "n div 10 < maxUint64 div 10 + 1" using 1(2) by (simp add: maxUint64_def)
    moreover have "n div 10 * 10 + n mod 10 = n" by simp
    ultimately have "uintLoop 10 (n div 10) [digits ! (n mod 10)] = (n, None)"
      using 1(2) d by simp
    with False ih show ?thesis
      by (subst decimal.simps) (simp add: uintLoop_append)
  qed
qed

lemma ParseUint_decimal: "n \<le> maxUint64 \<Longrightarrow> ParseUint (decimal n) = (n, None)"
proof (cases "n = 0")
  case True
  then show ?thesis by (simp add: ParseUint_def digits_def decimal.simps)
next
  case False
  assume le: "n \<le> maxUint64"
  from False have "hd (decimal n) \<noteq> CHR ''0''" by (simp add: hd_decimal_not_zero)
  with le show ?thesis
    by (cases "decimal n") (auto simp: ParseUint_def decimal_nonempty uintLoop_decimal [symmetric])
qed

lemma ParseInt_fmtInt: "ParseInt (fmtInt i) = (i, None)"
proof (cases "sint i < 0")
  case True
  have lo: "- (2 ^ 63) \<le> sint i" using sint_ge [of i] by simp
  let ?m = "nat (- sint i)"
  have m: "?m \<le> 2 ^ 63" "?m \<le> maxUint64" using lo by (auto simp: maxUint64_def)
  have rt: "- int ?m = sint i" using True by simp
  have f: "fmtInt i = CHR ''-'' # decimal ?m" using True by (simp add: fmtInt_def)
  have "ParseInt (CHR ''-'' # decimal ?m) = (word_of_int (- int ?m), None)"
    using m by (simp add: ParseInt_def ParseUint_decimal)
  with f rt show ?thesis by simp
next
  case False
  have hi: "sint i < 2 ^ 63" using sint_lt [of i] by simp
  let ?n = "nat (sint i)"
  have n: "?n < 2 ^ 63" "?n \<le> maxUint64" using hi False by (auto simp: maxUint64_def)
  have rt: "int ?n = sint i" using False by simp
  have f: "fmtInt i = decimal ?n" using False by (simp add: fmtInt_def)
  have "ParseInt (decimal ?n) = (word_of_int (int ?n), None)"
    using n hd_decimal_not_sign [of ?n]
    by (simp add: ParseInt_def ParseUint_decimal decimal_nonempty)
  with f rt show ?thesis by simp
qed

subsection \<open>Base64\<close>

lemma indexOf_nth:
  "distinct xs \<Longrightarrow> i < length xs \<Longrightarrow> indexOf (xs ! i) xs k = Some (k + i)"
proof (induction xs arbitrary: i k)
  case Nil
  then show ?case by simp
next
  case (Cons x xs)
  show ?case
  proof (cases i)
    case 0
    then show ?thesis by simp
  next
    case (Suc j)
    with Cons.prems have "xs ! j \<in> set xs" "x \<notin> set xs" by auto
    then have "x \<noteq> xs ! j" by auto
    with Suc Cons show ?thesis by simp
  qed
qed

lemma encodeStd_distinct: "distinct encodeStd"
  by (simp add: encodeStd_def)

lemma encodeStd_length: "length encodeStd = 64"
  by (simp add: encodeStd_def)

lemma decodeMap_enc64: "i < 64 \<Longrightarrow> decodeMap (enc64 i) = Some i"
  using indexOf_nth [OF encodeStd_distinct, of i 0] by (simp add: decodeMap_def enc64_def encodeStd_length)

lemma enc64_in: "i < 64 \<Longrightarrow> enc64 i \<in> set encodeStd"
  by (simp add: enc64_def encodeStd_length)

lemma encodeStd_plain: "c \<in> set encodeStd \<Longrightarrow> c \<noteq> CHR ''='' \<and> c \<noteq> CHR 0x0A \<and> c \<noteq> CHR 0x0D"
  by (auto simp: encodeStd_def)

lemma enc64_plain: "i < 64 \<Longrightarrow> enc64 i \<noteq> CHR ''='' \<and> enc64 i \<noteq> CHR 0x0A \<and> enc64 i \<noteq> CHR 0x0D"
  using encodeStd_plain [OF enc64_in] by blast

lemma unat8: "unat (a :: 8 word) < 256"
  using unsigned_less [of a, where 'a = nat] by simp

lemma sextets: "sextet0 a < 64" "sextet1 a b < 64" "sextet2 b c < 64" "sextet3 c < 64"
  using unat8 [of a] unat8 [of b] unat8 [of c]
  by (auto simp: sextet0_def sextet1_def sextet2_def sextet3_def)

lemma octets:
  "octet0 (sextet0 a) (sextet1 a b) = a"
  "octet1 (sextet1 a b) (sextet2 b c) = b"
  "octet2 (sextet2 b c) (sextet3 c) = c"
proof -
  have a: "unat a div 4 * 4 + (unat a mod 4 * 16 + unat b div 16) div 16 = unat a"
    using unat8 [of b] by simp
  have b: "(unat a mod 4 * 16 + unat b div 16) * 16 + (unat b mod 16 * 4 + unat c div 64) div 4
      = 256 * (unat a mod 4) + unat b"
    using unat8 [of c] by simp
  have c: "(unat b mod 16 * 4 + unat c div 64) * 64 + unat c mod 64 = 256 * (unat b mod 16) + unat c"
    by simp
  have z: "(256 :: 8 word) = 0" by simp
  have w: "\<And>k (x :: 8 word). (of_nat (256 * k + unat x) :: 8 word) = x"
    by (simp add: z)
  show "octet0 (sextet0 a) (sextet1 a b) = a"
    unfolding octet0_def sextet0_def sextet1_def a by simp
  show "octet1 (sextet1 a b) (sextet2 b c) = b"
    unfolding octet1_def sextet1_def sextet2_def b by (rule w)
  show "octet2 (sextet2 b c) (sextet3 c) = c"
    unfolding octet2_def sextet2_def sextet3_def c by (rule w)
qed

lemma removeNewlines_Encode: "removeNewlines (EncodeToString bs) = EncodeToString bs"
  by (induction bs rule: EncodeToString.induct) (simp_all add: removeNewlines_def enc64_plain sextets)

lemma decode_Encode: "decode (EncodeToString bs) = (bs, None)"
  by (induction bs rule: EncodeToString.induct)
     (simp_all add: decodeMap_enc64 enc64_plain sextets octets)

lemma DecodeString_EncodeToString: "DecodeString (EncodeToString bs) = (bs, None)"
  by (simp add: DecodeString_def removeNewlines_Encode decode_Encode)

subsection \<open>The six kinds\<close>

text \<open>
  C3 (as the code has it). For a boolean, an integer, a string and a byte slice, \<open>Set\<close>
  on the text that \<open>String()\<close> wrote for a value gives that value back without error,
  whatever the cell held; for a float it does whenever \<open>ParseFloat\<close> reads back what
  \<open>%v\<close> wrote. A string list does not come back through \<open>Set\<close>: \<open>Set\<close> appends the
  whole text as one more element.
\<close>

theorem C3_roundtrip:
  "Set lib (String_of lib (BoolV b)) (BoolV b0) = (BoolV b, None)
   \<and> Set lib (String_of lib (IntV i)) (IntV i0) = (IntV i, None)
   \<and> Set lib (String_of lib (StringV s)) (StringV s0) = (StringV s, None)
   \<and> Set lib (String_of lib (ByteV bs)) (ByteV bs0) = (ByteV bs, None)
   \<and> (ParseFloat lib (fmtFloat lib x) = (x, None) \<longrightarrow>
        Set lib (String_of lib (FloatV x)) (FloatV x0) = (FloatV x, None))
   \<and> Set lib (String_of lib (StringListV l)) (StringListV l0) =
        (StringListV (Some ((case l0 of None \<Rightarrow> [] | Some ys \<Rightarrow> ys) @ [String_of lib (StringListV l)])),
         None)
   \<and> fst (Set lib (String_of lib (StringListV l)) (StringListV l)) \<noteq> StringListV l"
  by (auto simp: ParseInt_fmtInt DecodeString_EncodeToString ParseBool_def fmtBool_def
      split: option.splits)

theorem C3_roundtrip_witness:
  "ParseFloat sampleLib (fmtFloat sampleLib 5) = (5, None)
   \<and> Set sampleLib (String_of sampleLib (FloatV 5)) (FloatV 0) = (FloatV 5, None)"
proof -
  have h: "ParseFloat sampleLib (fmtFloat sampleLib 5) = (5, None)"
    by (simp add: sampleLib_def fmtFloatInt_def digits_def decimal.simps ParseInt_def ParseUint_def
        digitVal_def maxUint64_def)
  with C3_roundtrip [where lib = sampleLib and x = 5 and ?x0.0 = 0] show ?thesis
    by blast
qed

text \<open>
  The claim as stated fails for the string list: the text of the nil list is empty and
  \<open>Set\<close> makes a list of one empty string of it; the text of the list \<open>[a]\<close> is
  appended to the list as a second element.
\<close>

theorem C3_string_list_counterexample:
  "Set sampleLib (String_of sampleLib (StringListV None)) (StringListV None) =
     (StringListV (Some [[]]), None)
   \<and> Set sampleLib (String_of sampleLib (StringListV (Some [''a'']))) (StringListV (Some [''a''])) =
     (StringListV (Some [''a'', jsonMarshalStrings sampleLib [''a'']]), None)"
  by simp

section \<open>Set on a text that does not parse\<close>

lemma uintLoop_result:
  "uintLoop b n ds = (v, e) \<Longrightarrow>
     e = None \<or> (e = Some ErrSyntax \<and> v = 0) \<or> (e = Some ErrRange \<and> v = maxUint64)"
  by (induction b n ds rule: uintLoop.induct) (auto split: option.splits if_splits)

lemma ParseUint_result:
  "ParseUint s = (v, e) \<Longrightarrow>
     e = None \<or> (e = Some ErrSyntax \<and> v = 0) \<or> (e = Some ErrRange \<and> v = maxUint64)"
  by (auto simp: ParseUint_def simp del: uintLoop.simps split: list.splits if_splits dest: uintLoop_result)

lemma ParseInt_result:
  "snd (ParseInt s) = None \<or>
   (snd (ParseInt s) = Some ErrSyntax \<and> fst (ParseInt s) = 0) \<or>
   (snd (ParseInt s) = Some ErrRange \<and>
      fst (ParseInt s) = (if hd s = CHR ''-'' then word_of_int (- (2 ^ 63)) else word_of_int (2 ^ 63 - 1)))"
proof (cases "s = []")
  case True
  then show ?thesis by (simp add: ParseInt_def)
next
  case False
  obtain v e where p: "ParseUint (if hd s = CHR ''+'' \<or> hd s = CHR ''-'' then tl s else s) = (v, e)"
    by (cases "ParseUint (if hd s = CHR ''+'' \<or> hd s = CHR ''-'' then tl s else s)") auto
  from ParseUint_result [OF p] False p show ?thesis
    by (auto simp: ParseInt_def Let_def maxUint64_def)
qed

lemma ParseBool_result: "snd (ParseBool s) \<noteq> None \<Longrightarrow> fst (ParseBool s) = False"
  by (simp add: ParseBool_def split: if_splits)

text \<open>
  C10 (as the code has it). \<open>Set\<close> on a boolean, an integer, a float or a byte slice
  stores the value the parse function returns, error or not, so what the cell held before
  is lost. That value is \<open>false\<close> after a boolean error and 0 after an integer syntax
  error, but the largest or the smallest int64 after an integer range error; for a byte
  slice it is whatever \<open>DecodeString\<close> returns, for a float whatever \<open>ParseFloat\<close> does.
\<close>

theorem C10_set_overwrites:
  "Set lib s (BoolV b) = (BoolV (fst (ParseBool s)), snd (ParseBool s))
   \<and> Set lib s (IntV i) = (IntV (fst (ParseInt s)), snd (ParseInt s))
   \<and> Set lib s (FloatV x) = (FloatV (fst (ParseFloat lib s)), snd (ParseFloat lib s))
   \<and> Set lib s (ByteV bs) = (ByteV (fst (DecodeString s)), snd (DecodeString s))
   \<and> (snd (ParseBool s) \<noteq> None \<longrightarrow> fst (ParseBool s) = False)
   \<and> (snd (ParseInt s) = Some ErrSyntax \<longrightarrow> fst (ParseInt s) = 0)
   \<and> (snd (ParseInt s) = Some ErrRange \<longrightarrow>
        fst (ParseInt s) = (if hd s = CHR ''-'' then word_of_int (- (2 ^ 63)) else word_of_int (2 ^ 63 - 1)))
   \<and> snd (ParseInt s) \<in> {None, Some ErrSyntax, Some ErrRange}"
  using ParseInt_result [of s] ParseBool_result [of s]
  by (auto split: prod.splits)

theorem C10_set_overwrites_witness:
  "Set sampleLib ''x'' (BoolV True) = (BoolV False, Some ErrSyntax)
   \<and> Set sampleLib ''12a'' (IntV 5) = (IntV 0, Some ErrSyntax)
   \<and> Set sampleLib ''-9223372036854775809'' (IntV 5) = (IntV (- 9223372036854775808), Some ErrRange)"
proof -
  have "ParseBool ''x'' = (False, Some ErrSyntax)"
    by (simp add: ParseBool_def)
  moreover have "ParseInt ''12a'' = (0, Some ErrSyntax)"
    by (simp add: ParseInt_def ParseUint_def digitVal_def maxUint64_def)
  moreover have "ParseInt ''-9223372036854775809'' = (- 9223372036854775808, Some ErrRange)"
    by (simp add: ParseInt_def ParseUint_def digitVal_def maxUint64_def)
  ultimately show ?thesis
    using C10_set_overwrites [of sampleLib "''x''" True 5 0 "[]"]
      C10_set_overwrites [of sampleLib "''12a''" True 5 0 "[]"]
      C10_set_overwrites [of sampleLib "''-9223372036854775809''" True 5 0 "[]"]
    by simp
qed

text \<open>
  The claim as stated fails where the parse function returns more than its zero value
  with the error: an integer out of range leaves the largest int64, and a base64 text
  with a corrupt tail leaves the bytes decoded before it.
\<close>

theorem C10_nonzero_counterexample:
  "Set sampleLib ''9223372036854775808'' (IntV 5) = (IntV 9223372036854775807, Some ErrRange)
   \<and> Set sampleLib ''QUJD!'' (ByteV []) = (ByteV [65, 66, 67], Some CorruptInputError)"
  by (simp add: ParseInt_def ParseUint_def digitVal_def maxUint64_def
      DecodeString_def removeNewlines_def decodeMap_def encodeStd_def octet0_def octet1_def octet2_def)

section \<open>Saving preferences\<close>

text \<open>
  \<open>jsonOptions\<close> puts a name into the map exactly when an option of that name has the
  Preference flag and a text other than its default, and calls the on-save callbacks of
  exactly those options, each before its entry is made.
\<close>

lemma optionMapLoop_keys:
  "fst (optionMapLoop lib vs m) k \<noteq> None \<longleftrightarrow>
     m k \<noteq> None \<or>
     (\<exists>v \<in> set vs. Name v = k \<and> Flags v AND Preference > 0 \<and> String_of lib (Value v) \<noteq> Default v)"
  by (induction vs arbitrary: m) (auto simp: case_prod_unfold)

lemma optionMapLoop_hooks:
  "snd (optionMapLoop lib vs m) =
     concat (map doSave_log
       (filter (\<lambda>v. Flags v AND Preference > 0 \<and> String_of lib (Value v) \<noteq> Default v) vs))"
  by (induction vs arbitrary: m) (auto simp: case_prod_unfold)

lemma fmtFloatInt_million: "fmtFloatInt 1000000 = ''1e+06''"
  by (simp add: fmtFloatInt_def decimal.simps digits_def)

lemma fmtFloatInt_below: "fmtFloatInt 999999 = ''999999''"
  by (simp add: fmtFloatInt_def decimal.simps digits_def)

lemma fmtFloatInt_more: "fmtFloatInt (-1234500) = ''-1.2345e+06''"
  by (simp add: fmtFloatInt_def decimal.simps digits_def)

lemma optionMap_demo:
  "fst (optionMapLoop sampleLib (optionList (setValue 3 (IntV v) demo)) Map.empty) =
     (if fmtInt v = ''0'' then Map.empty else [''size'' \<mapsto> NInt v])"
  by (simp add: demo_eq setValue_def fmtBool_def Preference_def)

text \<open>
  C4 (the code at the failing input). The integer preference \<open>size\<close> set to 1000000
  is put into the map as the int64. Written and decoded again it is the float64
  1000000, which \<open>%v\<close> writes as \<open>1e+06\<close>; \<open>ParseInt\<close> rejects that text, so loading
  the saved document into the same registry returns the error and leaves \<open>size\<close> at 0.
  With 999999 the value is reproduced.
\<close>

theorem C4_large_int_not_reproduced:
  "fst (optionMapLoop sampleLib (optionList (setValue 3 (IntV 1000000) demo)) Map.empty) ''size''
     = Some (NInt 1000000)
   \<and> loadOptions sampleLib
       \<lparr>osArgs = [],
        readFile = (\<lambda>n. Some (Inr (map_option jsonRoundTrip \<circ>
          fst (optionMapLoop sampleLib (optionList (setValue 3 (IntV 1000000) demo)) Map.empty)))),
        createFile = (\<lambda>n. None)\<rparr> ''options.json'' demo
     = (demo, Returns (Some (LibraryError ErrSyntax)))
   \<and> loadOptions sampleLib
       \<lparr>osArgs = [],
        readFile = (\<lambda>n. Some (Inr (map_option jsonRoundTrip \<circ>
          fst (optionMapLoop sampleLib (optionList (setValue 3 (IntV 999999) demo)) Map.empty)))),
        createFile = (\<lambda>n. None)\<rparr> ''options.json'' demo
     = (setValue 3 (IntV 999999) demo, Returns None)"
proof -
  have m1: "fmtInt 1000000 \<noteq> ''0''" and m2: "fmtInt 999999 \<noteq> ''0''"
    by (simp_all add: fmtInt_def decimal.simps digits_def)
  have p1: "ParseInt ''1e+06'' = (0, Some ErrSyntax)"
    by (simp add: ParseInt_def ParseUint_def digitVal_def maxUint64_def)
  have p2: "ParseInt ''999999'' = (999999, None)"
    by (simp add: ParseInt_def ParseUint_def digitVal_def maxUint64_def)
  show ?thesis
    unfolding optionMap_demo
    by (simp add: m1 m2 p1 p2 loadOptions_def loadOption_def sprintv_def sampleLib_def
        fmtFloatInt_million fmtFloatInt_below demo_eq setValue_def logged_def doChange_log_def hookLog_def)
qed

end
